theory Spec2Isabelle
  imports Main "HOL-Library.Sublist"
begin

section \<open>The remote file service as seen by \<open>src/api.ts\<close>\<close>

text \<open>
  \<open>uploadFile\<close> (api.ts, lines 52-82) talks to the remote store through two calls,
  \<open>client.files.upload\<close> and \<open>client.files.get\<close>. The code compares the \<open>state\<close> of the
  returned file with the strings \<open>'PROCESSING'\<close> and \<open>'FAILED'\<close>; every other state counts as
  success. The spec calls the three states Pending, Ready and Failed.
\<close>

datatype file_state = PROCESSING | ACTIVE | FAILED

text \<open>
  The errors the modelled code can throw: the explicit
  \<open>throw new Error('File processing failed.')\<close> of line 78, and the \<open>TypeError\<close> that the
  JavaScript runtime raises when a property of \<open>undefined\<close>/\<open>null\<close> is read or a non-function is
  called. The code declares no error class of its own.
\<close>

datatype js_error = ProcessingFailed | TypeError

text \<open>The browser \<open>File\<close> that was dropped: its name and its declared media type.\<close>

record dropped_file =
  name :: string
  type :: string

text \<open>
  The file object of the remote service (the \<open>UploadedFile\<close> interface of lines 16-19 plus the
  \<open>name\<close> and \<open>state\<close> fields that \<open>uploadFile\<close> reads).
\<close>

record remote_file =
  file_name :: string
  uri :: string
  mimeType :: string
  state :: file_state

text \<open>
  The remote service for one asset. \<open>status_script\<close> is the simulated status sequence: the
  states that the successive \<open>files.get\<close> queries will report. \<open>assigned_name\<close> and
  \<open>assigned_uri\<close> are what the service assigns to the uploaded asset. The counters record the
  calls that were issued, \<open>generate_calls\<close> the generation requests that were sent (prompt,
  media type and URI of the file), and \<open>slept_ms\<close> the time spent in \<open>setTimeout\<close>.
\<close>

record remote =
  assigned_name :: string
  assigned_uri :: string
  status_script :: "file_state list"
  upload_calls :: nat
  get_calls :: nat
  generate_calls :: "(string \<times> string \<times> string) list"
  slept_ms :: nat

text \<open>
  \<open>client.files.upload({file, config: {displayName: file.name}})\<close>, lines 54-59: the request
  is issued, and the file object that the service answers with is received (the model's
  upload always succeeds).
\<close>

definition issue_upload :: "remote \<Rightarrow> remote" where
  "issue_upload w = w\<lparr>upload_calls := Suc (upload_calls w)\<rparr>"

definition uploaded_file :: "dropped_file \<Rightarrow> remote \<Rightarrow> remote_file" where
  "uploaded_file f w =
     \<lparr>file_name = assigned_name w, uri = assigned_uri w, mimeType = type f, state = PROCESSING\<rparr>"

definition files_upload :: "dropped_file \<Rightarrow> remote \<Rightarrow> remote_file \<times> remote" where
  "files_upload f w = (uploaded_file f w, issue_upload w)"

text \<open>
  \<open>client.files.get({name})\<close>: one status query. The query is issued, and its answer is the
  next state of the script; when the script is exhausted the simulated service never answers
  and the \<open>await\<close> never resumes, which is the value \<open>None\<close>.
\<close>

definition issue_get :: "remote \<Rightarrow> remote" where
  "issue_get w = w\<lparr>get_calls := Suc (get_calls w)\<rparr>"

definition receive_state :: "remote \<Rightarrow> (file_state \<times> remote) option" where
  "receive_state w =
     (case status_script w of
        [] \<Rightarrow> None
      | s # rest \<Rightarrow> Some (s, w\<lparr>status_script := rest\<rparr>))"

definition files_get :: "remote \<Rightarrow> (file_state \<times> remote) option" where
  "files_get w = receive_state (issue_get w)"

text \<open>\<open>await new Promise((resolve) => setTimeout(resolve, 5000))\<close>, lines 72-74.\<close>

definition sleep_5000 :: "remote \<Rightarrow> remote" where
  "sleep_5000 w = w\<lparr>slept_ms := slept_ms w + 5000\<rparr>"

text \<open>
  The loop of lines 65-75: while the last reported state is \<open>'PROCESSING'\<close>, query again and
  then sleep five seconds (the sleep follows every query of the loop, also the one that reports
  a terminal state). The argument is \<open>getFile.state\<close>.
\<close>

function poll_while_processing :: "file_state \<Rightarrow> remote \<Rightarrow> (file_state \<times> remote) option" where
  "poll_while_processing s w =
     (if s = PROCESSING then
        (case files_get w of
           None \<Rightarrow> None
         | Some (s', w') \<Rightarrow> poll_while_processing s' (sleep_5000 w'))
      else Some (s, w))"
  by pat_completeness auto
termination
  by (relation "measure (\<lambda>(s, w). length (status_script w))")
     (auto simp: files_get_def receive_state_def issue_get_def sleep_5000_def split: list.splits)

declare poll_while_processing.simps [simp del]

text \<open>
  \<open>uploadFile\<close>, lines 52-82: upload, a first status query (line 62), the loop, then the
  \<open>'FAILED'\<close> check of line 77. The result is \<open>None\<close> when the service stops answering,
  \<open>Inl\<close> for the thrown error and \<open>Inr\<close> for the returned file (the last \<open>getFile\<close>).
\<close>

definition uploadFile :: "dropped_file \<Rightarrow> remote \<Rightarrow> ((js_error + remote_file) \<times> remote) option" where
  "uploadFile f w =
     (case files_upload f w of (uploadedFile, w1) \<Rightarrow>
        (case files_get w1 of
           None \<Rightarrow> None
         | Some (s0, w2) \<Rightarrow>
             (case poll_while_processing s0 w2 of
                None \<Rightarrow> None
              | Some (s, w3) \<Rightarrow>
                  if s = FAILED then Some (Inl ProcessingFailed, w3)
                  else Some (Inr (uploadedFile\<lparr>state := s\<rparr>), w3))))"

section \<open>Application state and handlers of \<open>src/App.tsx\<close>\<close>

text \<open>
  The \<open>Timecode\<close> interface of lines 35-40. Only \<open>time\<close> is mandatory. The numeric \<open>value\<close> is a
  JavaScript number that the modelled code stores and never computes with, so its type is left
  as a parameter.
\<close>

record 'n timecode =
  tc_time :: string
  tc_text :: "string option"
  tc_objects :: "string list option"
  tc_value :: "'n option"

text \<open>A function call of the generation response: \<open>{name, args: {timecodes}}\<close>.\<close>

record 'n call_args =
  timecodes :: "'n timecode list"

record 'n function_call =
  call_name :: string
  call_args :: "'n call_args"

text \<open>The part of the response that is read: \<open>resp.functionCalls\<close>, which may be absent.\<close>

record 'n response =
  functionCalls :: "'n function_call list option"

text \<open>\<open>URL.createObjectURL(droppedFile)\<close>: an opaque URL that stands for the file.\<close>

datatype object_url = ObjectURL dropped_file

text \<open>
  The \<open>useState\<close> cells of lines 43-62 that the modelled handlers read or write
  (\<open>requestedTimecode\<close>, \<open>showSidebar\<close> and \<open>theme\<close> are touched by none of them). A mode key
  is a string.
\<close>

record 'n app_state =
  vidUrl :: "object_url option"
  file_cell :: "remote_file option"
  timecodeList :: "'n timecode list option"
  selectedMode :: string
  activeMode :: "string option"
  isLoading :: bool
  isLoadingVideo :: bool
  videoError :: bool
  customPrompt :: string
  chartMode :: string
  chartPrompt :: string
  chartLabel :: string
  searchQuery :: string

subsection \<open>\<open>setTimecodes\<close>, lines 90-94\<close>

text \<open>
  \<open>t.text!.replace(/\\'/g, "'")\<close>: the regular expression matches a backslash followed by
  an apostrophe; the global replacement scans left to right and rewrites every
  non-overlapping match to an apostrophe.
\<close>

definition backslash :: char where
  "backslash = CHR 0x5C"

definition apostrophe :: char where
  "apostrophe = CHR 0x27"

fun replace_escaped_apostrophes :: "string \<Rightarrow> string" where
  "replace_escaped_apostrophes (b # q # rest) =
     (if b = backslash \<and> q = apostrophe then apostrophe # replace_escaped_apostrophes rest
      else b # replace_escaped_apostrophes (q # rest))"
| "replace_escaped_apostrophes s = s"

text \<open>
  The callback of \<open>map\<close>: \<open>({...t, text: t.text!.replace(...)})\<close>. The \<open>!\<close> is erased by the
  compiler, so an absent \<open>text\<close> makes \<open>undefined.replace\<close> throw a \<open>TypeError\<close>.
\<close>

definition normalize_item :: "'n timecode \<Rightarrow> js_error + 'n timecode" where
  "normalize_item t =
     (case tc_text t of
        None \<Rightarrow> Inl TypeError
      | Some s \<Rightarrow> Inr (t\<lparr>tc_text := Some (replace_escaped_apostrophes s)\<rparr>))"

text \<open>\<open>timecodes.map(callback)\<close>: the first callback that throws aborts the whole map.\<close>

fun map_timecodes :: "'n timecode list \<Rightarrow> js_error + 'n timecode list" where
  "map_timecodes [] = Inr []"
| "map_timecodes (t # ts) =
     (case normalize_item t of
        Inl e \<Rightarrow> Inl e
      | Inr t' \<Rightarrow> (case map_timecodes ts of Inl e \<Rightarrow> Inl e | Inr ts' \<Rightarrow> Inr (t' # ts')))"

text \<open>
  A handler returns the error it threw, if any, and the state it leaves.
  \<open>setTimecodeList\<close> is reached only when the map has returned.
\<close>

definition setTimecodes :: "'n call_args \<Rightarrow> 'n app_state \<Rightarrow> js_error option \<times> 'n app_state" where
  "setTimecodes a st =
     (case map_timecodes (timecodes a) of
        Inl e \<Rightarrow> (Some e, st)
      | Inr ts \<Rightarrow> (None, st\<lparr>timecodeList := Some ts\<rparr>))"

text \<open>The third handler, lines 141-145: \<open>({timecodes}) => setTimecodeList(timecodes)\<close>.\<close>

definition setTimecodeList_handler ::
  "'n call_args \<Rightarrow> 'n app_state \<Rightarrow> js_error option \<times> 'n app_state" where
  "setTimecodeList_handler a st = (None, st\<lparr>timecodeList := Some (timecodes a)\<rparr>)"

subsection \<open>Prompt compilation, lines 103-119\<close>

text \<open>
  \<open>modes\<close> is imported from \<open>./modes\<close>, which is not part of the sources at hand, so the table
  is a parameter. A mode's \<open>prompt\<close> is a string or a function of the user's input, and only
  the Chart mode has \<open>subModes\<close>, a table from sub-mode name to canned fragment. The function
  receives whatever the lookup yields, also \<open>undefined\<close> (\<open>None\<close>) for a missing key.
\<close>

datatype prompt = PromptText string | PromptFn "string option \<Rightarrow> string"

record mode_config =
  prompt :: prompt
  subModes :: "(string \<Rightarrow> string option) option"

text \<open>Lines 70-71: \<open>isChartMode && chartMode === 'Custom'\<close>.\<close>

definition isChartMode :: "'n app_state \<Rightarrow> bool" where
  "isChartMode st = (selectedMode st = ''Chart'')"

definition isCustomChartMode :: "'n app_state \<Rightarrow> bool" where
  "isCustomChartMode st = (isChartMode st \<and> chartMode st = ''Custom'')"

definition promptText :: "(string \<Rightarrow> mode_config) \<Rightarrow> string \<Rightarrow> 'n app_state \<Rightarrow> string" where
  "promptText modes mode st =
     (let modeConfig = modes mode in
      case prompt modeConfig of
        PromptFn f \<Rightarrow>
          (case subModes modeConfig of
             Some sub \<Rightarrow>
               f (if isCustomChartMode st then Some (chartPrompt st) else sub (chartMode st))
           | None \<Rightarrow> f (Some (customPrompt st)))
      | PromptText s \<Rightarrow> s)"

text \<open>
  The handlers that set the cells the prompt is compiled from: the preset buttons (line
  306), \<open>onFocus\<close> and \<open>onChange\<close> of the Chart textarea (lines 322 and 315), \<open>onChange\<close> of the
  Custom textarea (line 284) and the mode buttons (line 361).
\<close>

datatype ui_event =
    ClickChartMode string
  | FocusChartPrompt
  | ChangeChartPrompt string
  | ChangeCustomPrompt string
  | ClickMode string

fun ui_step :: "'n app_state \<Rightarrow> ui_event \<Rightarrow> 'n app_state" where
  "ui_step st (ClickChartMode m) = st\<lparr>chartMode := m\<rparr>"
| "ui_step st FocusChartPrompt = st\<lparr>chartMode := ''Custom''\<rparr>"
| "ui_step st (ChangeChartPrompt v) = st\<lparr>chartPrompt := v\<rparr>"
| "ui_step st (ChangeCustomPrompt v) = st\<lparr>customPrompt := v\<rparr>"
| "ui_step st (ClickMode m) = st\<lparr>selectedMode := m\<rparr>"

definition ui_run :: "'n app_state \<Rightarrow> ui_event list \<Rightarrow> 'n app_state" where
  "ui_run st evs = foldl ui_step st evs"

subsection \<open>\<open>generateContent\<close>, api.ts lines 21-50\<close>

text \<open>
  The request is built from \<open>file.mimeType\<close> and \<open>file.uri\<close>; \<open>App\<close> passes its \<open>file\<close> cell,
  which is \<open>null\<close> until an upload has succeeded, and reading a property of \<open>null\<close> throws
  before any request is made. Otherwise one request is issued and the service's response
  \<open>resp\<close> is returned.
\<close>

definition generateContent ::
  "string \<Rightarrow> remote_file option \<Rightarrow> 'n response \<Rightarrow> remote \<Rightarrow> (js_error + 'n response) \<times> remote" where
  "generateContent ptext f resp w =
     (case f of
        None \<Rightarrow> (Inl TypeError, w)
      | Some uf \<Rightarrow> (Inr resp, w\<lparr>generate_calls := generate_calls w @ [(ptext, mimeType uf, uri uf)]\<rparr>))"

subsection \<open>Dispatch of the function call, lines 135-147\<close>

text \<open>\<open>resp.functionCalls?.[0]\<close>: \<open>undefined\<close> for an absent or empty list.\<close>

definition first_call :: "'n response \<Rightarrow> 'n function_call option" where
  "first_call resp =
     (case functionCalls resp of
        None \<Rightarrow> None
      | Some [] \<Rightarrow> None
      | Some (c # cs) \<Rightarrow> Some c)"

text \<open>
  The dispatch table is an object literal with three own properties, indexed by
  \<open>call.name\<close>. An object literal inherits from \<open>Object.prototype\<close>, so a name that is not an
  own property is looked up there. These are the inherited members that are functions and
  return normally when called on the table with the argument object; the result is
  discarded. Every other name yields \<open>undefined\<close>, a non-function (\<open>__proto__\<close>) or a function
  that rejects the argument (\<open>__defineGetter__\<close>, \<open>__defineSetter__\<close>), and the call throws a
  \<open>TypeError\<close>.
\<close>

definition inherited_callables :: "string list" where
  "inherited_callables =
     [''constructor'', ''hasOwnProperty'', ''isPrototypeOf'', ''propertyIsEnumerable'',
      ''toLocaleString'', ''toString'', ''valueOf'', ''__lookupGetter__'', ''__lookupSetter__'']"

definition declared_tools :: "string list" where
  "declared_tools =
     [''set_timecodes'', ''set_timecodes_with_objects'', ''set_timecodes_with_numeric_values'']"

definition invoke ::
  "string \<Rightarrow> 'n call_args \<Rightarrow> 'n app_state \<Rightarrow> js_error option \<times> 'n app_state" where
  "invoke nm a st =
     (if nm = ''set_timecodes'' then setTimecodes a st
      else if nm = ''set_timecodes_with_objects'' then setTimecodes a st
      else if nm = ''set_timecodes_with_numeric_values'' then setTimecodeList_handler a st
      else if nm \<in> set inherited_callables then (None, st)
      else (Some TypeError, st))"

definition dispatch :: "'n response \<Rightarrow> 'n app_state \<Rightarrow> js_error option \<times> 'n app_state" where
  "dispatch resp st =
     (case first_call resp of
        None \<Rightarrow> (None, st)
      | Some c \<Rightarrow> invoke (call_name c) (call_args c) st)"

subsection \<open>\<open>onModeSelect\<close>, lines 97-151\<close>

text \<open>
  The four state updates of lines 98-101, the prompt, the generation request, the dispatch,
  and \<open>setIsLoading(false)\<close>, which is reached only when nothing has thrown. The prompt is
  compiled from the state of the render that created the handler, which is \<open>st\<close>.
\<close>

definition onModeSelect ::
  "(string \<Rightarrow> mode_config) \<Rightarrow> string \<Rightarrow> 'n response \<Rightarrow> 'n app_state \<Rightarrow> remote \<Rightarrow>
     js_error option \<times> 'n app_state \<times> remote" where
  "onModeSelect modes mode resp st w =
     (let st1 = st\<lparr>searchQuery := [], activeMode := Some mode, isLoading := True,
                   chartLabel := chartPrompt st\<rparr>
      in case generateContent (promptText modes mode st) (file_cell st) resp w of
           (Inl e, w') \<Rightarrow> (Some e, st1, w')
         | (Inr r, w') \<Rightarrow>
             (case dispatch r st1 of
                (Some e, st2) \<Rightarrow> (Some e, st2, w')
              | (None, st2) \<Rightarrow> (None, st2\<lparr>isLoading := False\<rparr>, w')))"

subsection \<open>\<open>uploadVideo\<close>, lines 153-182\<close>

text \<open>
  The argument is \<open>e.dataTransfer.files[0]\<close>, absent when nothing was dropped. The result is
  \<open>None\<close> when \<open>uploadFile\<close> never returns.
\<close>

definition uploadVideo ::
  "dropped_file option \<Rightarrow> 'n app_state \<Rightarrow> remote \<Rightarrow> ('n app_state \<times> remote) option" where
  "uploadVideo droppedFile st w =
     (let st1 = st\<lparr>isLoadingVideo := True, videoError := False\<rparr> in
      case droppedFile of
        None \<Rightarrow> Some (st1\<lparr>isLoadingVideo := False\<rparr>, w)
      | Some f \<Rightarrow>
          if \<not> prefix ''video/'' (type f) then
            Some (st1\<lparr>videoError := True, isLoadingVideo := False, vidUrl := None\<rparr>, w)
          else
            (let st2 = st1\<lparr>vidUrl := Some (ObjectURL f)\<rparr> in
             case uploadFile f w of
               None \<Rightarrow> None
             | Some (Inr res, w') \<Rightarrow> Some (st2\<lparr>file_cell := Some res, isLoadingVideo := False\<rparr>, w')
             | Some (Inl e, w') \<Rightarrow> Some (st2\<lparr>videoError := True, isLoadingVideo := False\<rparr>, w')))"

section \<open>Interleaved pipeline runs\<close>

text \<open>
  \<open>uploadVideo\<close> is an \<open>async\<close> function: it runs until an \<open>await\<close> and is resumed when the
  awaited promise settles, and in between other handlers run, among them another drop. A run
  that got past the media-type check is suspended at one of the \<open>await\<close>s of \<open>uploadFile\<close>;
  each point carries the local variables that are live there (\<open>uploadedFile\<close>, and
  \<open>getFile.state\<close> during the sleep).
\<close>

datatype suspended_at =
    AwaitUpload
  | AwaitFirstGet remote_file
  | AwaitLoopGet remote_file
  | AwaitSleep remote_file file_state
  | Finished

text \<open>A run: the dropped file, the service's view of its asset, and where it is suspended.\<close>

record run =
  run_file :: dropped_file
  run_remote :: remote
  run_at :: suspended_at

text \<open>
  Lines 76-81 of api.ts and 176-181 of App.tsx, reached when the loop condition is false:
  \<open>'FAILED'\<close> throws into the \<open>catch\<close>, every other state returns the file into \<open>setFile\<close>.
  Nothing is compared with the state that other runs have written meanwhile.
\<close>

definition finish :: "file_state \<Rightarrow> remote_file \<Rightarrow> 'n app_state \<Rightarrow> 'n app_state" where
  "finish s uploadedFile st =
     (if s = FAILED then st\<lparr>videoError := True, isLoadingVideo := False\<rparr>
      else st\<lparr>file_cell := Some (uploadedFile\<lparr>state := s\<rparr>), isLoadingVideo := False\<rparr>)"

text \<open>The loop condition of line 65, evaluated with \<open>getFile.state = s\<close>.\<close>

definition loop_check ::
  "file_state \<Rightarrow> remote_file \<Rightarrow> run \<Rightarrow> 'n app_state \<Rightarrow> run \<times> 'n app_state" where
  "loop_check s uploadedFile r st =
     (if s = PROCESSING then
        (r\<lparr>run_remote := issue_get (run_remote r), run_at := AwaitLoopGet uploadedFile\<rparr>, st)
      else (r\<lparr>run_at := Finished\<rparr>, finish s uploadedFile st))"

text \<open>
  Resuming a run: the awaited answer is received and the code runs to its next \<open>await\<close>.
  \<open>None\<close> when the run is not resumable: it has finished, or the service never answers.
\<close>

definition resume :: "run \<Rightarrow> 'n app_state \<Rightarrow> (run \<times> 'n app_state) option" where
  "resume r st =
     (case run_at r of
        AwaitUpload \<Rightarrow>
          Some (r\<lparr>run_remote := issue_get (run_remote r),
                   run_at := AwaitFirstGet (uploaded_file (run_file r) (run_remote r))\<rparr>, st)
      | AwaitFirstGet uploadedFile \<Rightarrow>
          (case receive_state (run_remote r) of
             None \<Rightarrow> None
           | Some (s, w) \<Rightarrow> Some (loop_check s uploadedFile (r\<lparr>run_remote := w\<rparr>) st))
      | AwaitLoopGet uploadedFile \<Rightarrow>
          (case receive_state (run_remote r) of
             None \<Rightarrow> None
           | Some (s, w) \<Rightarrow> Some (r\<lparr>run_remote := w, run_at := AwaitSleep uploadedFile s\<rparr>, st))
      | AwaitSleep uploadedFile s \<Rightarrow>
          Some (loop_check s uploadedFile (r\<lparr>run_remote := sleep_5000 (run_remote r)\<rparr>) st)
      | Finished \<Rightarrow> None)"

text \<open>
  The drop handler up to its first \<open>await\<close> (lines 154-175): the synchronous part of
  \<open>uploadVideo\<close>, which for a video file issues the upload request and suspends.
\<close>

definition start_run ::
  "dropped_file option \<Rightarrow> remote \<Rightarrow> 'n app_state \<Rightarrow> run option \<times> 'n app_state" where
  "start_run droppedFile w st =
     (let st1 = st\<lparr>isLoadingVideo := True, videoError := False\<rparr> in
      case droppedFile of
        None \<Rightarrow> (None, st1\<lparr>isLoadingVideo := False\<rparr>)
      | Some f \<Rightarrow>
          if \<not> prefix ''video/'' (type f) then
            (None, st1\<lparr>videoError := True, isLoadingVideo := False, vidUrl := None\<rparr>)
          else
            (Some \<lparr>run_file = f, run_remote = issue_upload w, run_at = AwaitUpload\<rparr>,
             st1\<lparr>vidUrl := Some (ObjectURL f)\<rparr>))"

text \<open>
  The application with its runs, in the order in which they were started. An event is a drop
  (with the service's script for the new asset) or the resumption of the \<open>i\<close>-th run.
\<close>

record 'n system =
  app :: "'n app_state"
  runs :: "run list"

datatype sched_event = Drop "dropped_file option" remote | Resume nat

fun sys_step :: "'n system \<Rightarrow> sched_event \<Rightarrow> 'n system option" where
  "sys_step s (Drop d w) =
     (case start_run d w (app s) of
        (None, st') \<Rightarrow> Some (s\<lparr>app := st'\<rparr>)
      | (Some r, st') \<Rightarrow> Some (s\<lparr>app := st', runs := runs s @ [r]\<rparr>))"
| "sys_step s (Resume i) =
     (if i < length (runs s) then
        (case resume (runs s ! i) (app s) of
           None \<Rightarrow> None
         | Some (r', st') \<Rightarrow> Some (s\<lparr>app := st', runs := (runs s)[i := r']\<rparr>))
      else None)"

fun exec :: "'n system \<Rightarrow> sched_event list \<Rightarrow> 'n system option" where
  "exec s [] = Some s"
| "exec s (e # es) = (case sys_step s e of None \<Rightarrow> None | Some s' \<Rightarrow> exec s' es)"

section \<open>Concrete inputs\<close>

text \<open>
  A state as \<open>App\<close> has it before the first drop (lines 43-62), with the first mode and the
  first chart sub-mode written out, a dropped video, and a service that has assigned the
  asset its name.
\<close>

definition initial_state :: "int app_state" where
  "initial_state =
     \<lparr>vidUrl = None, file_cell = None, timecodeList = None, selectedMode = ''A/V captions'',
      activeMode = None, isLoading = False, isLoadingVideo = False, videoError = False,
      customPrompt = [], chartMode = ''Excitement'', chartPrompt = [], chartLabel = [],
      searchQuery = []\<rparr>"

definition clip_a :: dropped_file where
  "clip_a = \<lparr>name = ''a.mp4'', type = ''video/mp4''\<rparr>"

definition clip_b :: dropped_file where
  "clip_b = \<lparr>name = ''b.webm'', type = ''video/webm''\<rparr>"

definition notes_txt :: dropped_file where
  "notes_txt = \<lparr>name = ''notes.txt'', type = ''text/plain''\<rparr>"

definition service :: "string \<Rightarrow> file_state list \<Rightarrow> remote" where
  "service nm script =
     \<lparr>assigned_name = nm, assigned_uri = ''https://files.example/'' @ nm,
      status_script = script, upload_calls = 0, get_calls = 0, generate_calls = [],
      slept_ms = 0\<rparr>"

text \<open>
  A mode table of the shape that \<open>onModeSelect\<close> expects: a mode with a fixed prompt, the
  Chart mode with two preset sub-modes, and the Custom mode. The prompt functions splice
  their input into a template, \<open>undefined\<close> printing as the word.
\<close>

definition splice :: "string \<Rightarrow> string option \<Rightarrow> string" where
  "splice template input = template @ (case input of None \<Rightarrow> ''undefined'' | Some v \<Rightarrow> v)"

definition example_subModes :: "string \<Rightarrow> string option" where
  "example_subModes =
     map_of [(''Excitement'', ''rate the excitement of each scene''),
             (''Importance'', ''rate the importance of each scene'')]"

definition example_modes :: "string \<Rightarrow> mode_config" where
  "example_modes m =
     (if m = ''Chart'' then
        \<lparr>prompt = PromptFn (splice ''Generate chart data: ''), subModes = Some example_subModes\<rparr>
      else if m = ''Custom'' then
        \<lparr>prompt = PromptFn (splice ''Call set_timecodes once: ''), subModes = None\<rparr>
      else \<lparr>prompt = PromptText ''Generate captions for each scene'', subModes = None\<rparr>)"

text \<open>The text \<open>A\'B\<close> (four characters), and timecode items that carry it.\<close>

definition escaped_text :: string where
  "escaped_text = [CHR ''A'', backslash, apostrophe, CHR ''B'']"

definition caption_item :: "int timecode" where
  "caption_item =
     \<lparr>tc_time = ''00:01'', tc_text = Some escaped_text, tc_objects = None, tc_value = None\<rparr>"

definition valued_item :: "int timecode" where
  "valued_item =
     \<lparr>tc_time = ''00:01'', tc_text = Some escaped_text, tc_objects = None, tc_value = Some 7\<rparr>"

definition bare_item :: "int timecode" where
  "bare_item = \<lparr>tc_time = ''00:05'', tc_text = None, tc_objects = None, tc_value = Some 9\<rparr>"

definition ready_file :: remote_file where
  "ready_file =
     \<lparr>file_name = ''files/a'', uri = ''https://files.example/files/a'', mimeType = ''video/mp4'',
      state = ACTIVE\<rparr>"

section \<open>Properties of the poller\<close>

lemma poll_terminal:
  "s \<noteq> PROCESSING \<Longrightarrow> poll_while_processing s w = Some (s, w)"
  by (simp add: poll_while_processing.simps)

lemma poll_pending_run:
  "status_script w = replicate k PROCESSING @ t # rest \<Longrightarrow> t \<noteq> PROCESSING \<Longrightarrow>
   poll_while_processing PROCESSING w =
     Some (t, w\<lparr>status_script := rest,
               get_calls := get_calls w + Suc k,
               slept_ms := slept_ms w + 5000 * Suc k\<rparr>)"
proof (induction k arbitrary: w)
  case 0
  then show ?case
    by (simp add: poll_while_processing.simps [of PROCESSING] files_get_def receive_state_def
        issue_get_def sleep_5000_def poll_terminal)
next
  case (Suc k)
  define w1 where "w1 = (issue_get w)\<lparr>status_script := replicate k PROCESSING @ t # rest\<rparr>"
  define w' where "w' = sleep_5000 w1"
  have got: "files_get w = Some (PROCESSING, w1)"
    using Suc.prems(1) by (simp add: files_get_def receive_state_def issue_get_def w1_def)
  have script: "status_script w' = replicate k PROCESSING @ t # rest"
    by (simp add: w'_def w1_def sleep_5000_def)
  have "poll_while_processing PROCESSING w = poll_while_processing PROCESSING w'"
    by (subst poll_while_processing.simps) (simp add: got w'_def)
  also have "\<dots> = Some (t, w'\<lparr>status_script := rest,
               get_calls := get_calls w' + Suc k,
               slept_ms := slept_ms w' + 5000 * Suc k\<rparr>)"
    by (rule Suc.IH [OF script Suc.prems(2)])
  also have "\<dots> = Some (t, w\<lparr>status_script := rest,
               get_calls := get_calls w + Suc (Suc k),
               slept_ms := slept_ms w + 5000 * Suc (Suc k)\<rparr>)"
    by (simp add: w'_def w1_def issue_get_def sleep_5000_def)
  finally show ?case .
qed

lemma uploadFile_script:
  assumes script: "status_script w = replicate k PROCESSING @ t # rest"
    and terminal: "t \<noteq> PROCESSING"
  shows "uploadFile f w =
     Some (if t = FAILED then Inl ProcessingFailed else Inr ((uploaded_file f w)\<lparr>state := t\<rparr>),
           w\<lparr>status_script := rest,
             upload_calls := Suc (upload_calls w),
             get_calls := get_calls w + Suc k,
             slept_ms := slept_ms w + 5000 * k\<rparr>)"
proof (cases k)
  case 0
  define w2 where "w2 = (issue_get (issue_upload w))\<lparr>status_script := rest\<rparr>"
  have got: "files_get (issue_upload w) = Some (t, w2)"
    using script 0 by (simp add: files_get_def receive_state_def issue_get_def issue_upload_def w2_def)
  have "uploadFile f w =
      Some (if t = FAILED then Inl ProcessingFailed else Inr ((uploaded_file f w)\<lparr>state := t\<rparr>), w2)"
    using terminal by (simp add: uploadFile_def files_upload_def got poll_terminal)
  moreover have "w2 = w\<lparr>status_script := rest,
             upload_calls := Suc (upload_calls w),
             get_calls := get_calls w + Suc k,
             slept_ms := slept_ms w + 5000 * k\<rparr>"
    using 0 by (simp add: w2_def issue_get_def issue_upload_def)
  ultimately show ?thesis by simp
next
  case (Suc j)
  define w2 where
    "w2 = (issue_get (issue_upload w))\<lparr>status_script := replicate j PROCESSING @ t # rest\<rparr>"
  have got: "files_get (issue_upload w) = Some (PROCESSING, w2)"
    using script Suc by (simp add: files_get_def receive_state_def issue_get_def issue_upload_def w2_def)
  have "status_script w2 = replicate j PROCESSING @ t # rest"
    by (simp add: w2_def)
  from poll_pending_run [OF this terminal]
  have polled: "poll_while_processing PROCESSING w2 =
      Some (t, w2\<lparr>status_script := rest, get_calls := get_calls w2 + Suc j,
                  slept_ms := slept_ms w2 + 5000 * Suc j\<rparr>)" .
  have "uploadFile f w =
      Some (if t = FAILED then Inl ProcessingFailed else Inr ((uploaded_file f w)\<lparr>state := t\<rparr>),
            w2\<lparr>status_script := rest, get_calls := get_calls w2 + Suc j,
                  slept_ms := slept_ms w2 + 5000 * Suc j\<rparr>)"
    by (simp add: uploadFile_def files_upload_def got polled)
  moreover have "w2\<lparr>status_script := rest, get_calls := get_calls w2 + Suc j,
                  slept_ms := slept_ms w2 + 5000 * Suc j\<rparr> =
      w\<lparr>status_script := rest,
             upload_calls := Suc (upload_calls w),
             get_calls := get_calls w + Suc k,
             slept_ms := slept_ms w + 5000 * k\<rparr>"
    using Suc by (simp add: w2_def issue_get_def issue_upload_def)
  ultimately show ?thesis by simp
qed

text \<open>
  Claim C1. When the service reports \<open>'PROCESSING'\<close> \<open>k\<close> times and then a ready state,
  \<open>uploadFile\<close> returns, the file it returns has the ready state, exactly \<open>k + 1\<close> status
  queries were issued (one per reported state), and whatever the script holds after the
  first state that is not \<open>'PROCESSING'\<close> is never asked for. One upload was made, and the
  loop slept five seconds after each of its \<open>k\<close> queries.
\<close>

theorem uploadFile_pending_then_ready:
  assumes "status_script w = replicate k PROCESSING @ ACTIVE # rest"
  shows "uploadFile f w =
     Some (Inr ((uploaded_file f w)\<lparr>state := ACTIVE\<rparr>),
           w\<lparr>status_script := rest,
             upload_calls := Suc (upload_calls w),
             get_calls := get_calls w + length (replicate k PROCESSING @ [ACTIVE]),
             slept_ms := slept_ms w + 5000 * k\<rparr>)"
  using uploadFile_script [OF assms, of f] by simp

theorem uploadFile_pending_then_ready_witness:
  "status_script (service ''files/a'' [PROCESSING, PROCESSING, ACTIVE]) =
     replicate 2 PROCESSING @ ACTIVE # [] \<and>
   map_option (\<lambda>(r, w'). (r, get_calls w', status_script w'))
     (uploadFile clip_a (service ''files/a'' [PROCESSING, PROCESSING, ACTIVE])) =
     Some (Inr \<lparr>file_name = ''files/a'', uri = ''https://files.example/files/a'',
                mimeType = ''video/mp4'', state = ACTIVE\<rparr>, 3, [])"
proof -
  have script: "status_script (service ''files/a'' [PROCESSING, PROCESSING, ACTIVE]) =
     replicate 2 PROCESSING @ ACTIVE # []"
    by (simp add: service_def numeral_2_eq_2)
  show ?thesis
    using script uploadFile_pending_then_ready [OF script, of clip_a]
    by (simp add: uploaded_file_def service_def clip_a_def)
qed

text \<open>
  Claim C2. When the service reports \<open>'PROCESSING'\<close> \<open>k\<close> times and then \<open>'FAILED'\<close>,
  \<open>uploadFile\<close> throws its processing-failed error right after the query that observed
  \<open>'FAILED'\<close> (query \<open>k + 1\<close>, with nothing of the remaining script consumed), and
  \<open>uploadVideo\<close> catches it: the error flag is set, loading is cleared, the handle of the
  failed asset is not stored in the \<open>file\<close> cell, and no generation request was sent.
\<close>

theorem failed_processing_signals_error:
  assumes "status_script w = replicate k PROCESSING @ FAILED # rest"
    and "prefix ''video/'' (type f)"
  shows "uploadFile f w =
           Some (Inl ProcessingFailed,
                 w\<lparr>status_script := rest, upload_calls := Suc (upload_calls w),
                   get_calls := get_calls w + Suc k, slept_ms := slept_ms w + 5000 * k\<rparr>) \<and>
         uploadVideo (Some f) st w =
           Some (st\<lparr>isLoadingVideo := False, videoError := True, vidUrl := Some (ObjectURL f)\<rparr>,
                 w\<lparr>status_script := rest, upload_calls := Suc (upload_calls w),
                   get_calls := get_calls w + Suc k, slept_ms := slept_ms w + 5000 * k\<rparr>) \<and>
         map_option (file_cell \<circ> fst) (uploadVideo (Some f) st w) = Some (file_cell st) \<and>
         map_option (generate_calls \<circ> snd) (uploadVideo (Some f) st w) = Some (generate_calls w)"
proof -
  have up: "uploadFile f w =
           Some (Inl ProcessingFailed,
                 w\<lparr>status_script := rest, upload_calls := Suc (upload_calls w),
                   get_calls := get_calls w + Suc k, slept_ms := slept_ms w + 5000 * k\<rparr>)"
    using uploadFile_script [OF assms(1), of f] by simp
  have vid: "uploadVideo (Some f) st w =
           Some (st\<lparr>isLoadingVideo := False, videoError := True, vidUrl := Some (ObjectURL f)\<rparr>,
                 w\<lparr>status_script := rest, upload_calls := Suc (upload_calls w),
                   get_calls := get_calls w + Suc k, slept_ms := slept_ms w + 5000 * k\<rparr>)"
    using assms(2) by (simp add: uploadVideo_def up)
  show ?thesis
    by (simp add: up vid)
qed

theorem failed_processing_signals_error_witness:
  "status_script (service ''files/a'' [PROCESSING, FAILED]) = replicate 1 PROCESSING @ FAILED # [] \<and>
   prefix ''video/'' (type clip_a) \<and>
   map_option fst (uploadFile clip_a (service ''files/a'' [PROCESSING, FAILED])) =
     Some (Inl ProcessingFailed) \<and>
   map_option (\<lambda>(st', w'). (videoError st', isLoadingVideo st', file_cell st', get_calls w',
        generate_calls w'))
     (uploadVideo (Some clip_a) initial_state (service ''files/a'' [PROCESSING, FAILED])) =
     Some (True, False, None, 2, [])"
proof -
  have script: "status_script (service ''files/a'' [PROCESSING, FAILED]) =
      replicate 1 PROCESSING @ FAILED # []"
    by (simp add: service_def)
  have video: "prefix ''video/'' (type clip_a)"
    by (simp add: clip_a_def)
  show ?thesis
    using script video failed_processing_signals_error [OF script video, of initial_state]
    by (simp add: service_def initial_state_def)
qed

text \<open>
  Claim C8. A dropped file whose media type does not start with \<open>video/\<close> never reaches
  the upload: the service is left exactly as it was (no upload, no query), the error flag is
  set, the video URL is cleared and loading is cleared. Conversely, whenever a drop has
  issued an upload, a file was dropped and its media type starts with \<open>video/\<close>.
\<close>

theorem non_video_never_uploaded:
  "(\<not> prefix ''video/'' (type f) \<longrightarrow>
      uploadVideo (Some f) st w =
        Some (st\<lparr>isLoadingVideo := False, videoError := True, vidUrl := None\<rparr>, w)) \<and>
   (uploadVideo d st w = Some (st', w') \<and> upload_calls w' \<noteq> upload_calls w \<longrightarrow>
      (\<exists>g. d = Some g \<and> prefix ''video/'' (type g)))"
proof (intro conjI impI)
  assume "\<not> prefix ''video/'' (type f)"
  then show "uploadVideo (Some f) st w =
        Some (st\<lparr>isLoadingVideo := False, videoError := True, vidUrl := None\<rparr>, w)"
    by (simp add: uploadVideo_def)
next
  assume run: "uploadVideo d st w = Some (st', w') \<and> upload_calls w' \<noteq> upload_calls w"
  show "\<exists>g. d = Some g \<and> prefix ''video/'' (type g)"
  proof (cases d)
    case None
    with run show ?thesis by (auto simp: uploadVideo_def)
  next
    case (Some g)
    with run have "prefix ''video/'' (type g)"
      by (cases "prefix ''video/'' (type g)") (auto simp: uploadVideo_def)
    with Some show ?thesis by simp
  qed
qed

theorem non_video_never_uploaded_witness:
  "\<not> prefix ''video/'' (type notes_txt) \<and>
   uploadVideo (Some notes_txt) initial_state (service ''files/a'' [ACTIVE]) =
     Some (initial_state\<lparr>isLoadingVideo := False, videoError := True, vidUrl := None\<rparr>,
           service ''files/a'' [ACTIVE]) \<and>
   upload_calls (service ''files/a'' [ACTIVE]) = 0 \<and>
   map_option (upload_calls \<circ> snd)
     (uploadVideo (Some clip_a) initial_state (service ''files/a'' [ACTIVE])) = Some 1 \<and>
   prefix ''video/'' (type clip_a)"
proof -
  have no_video: "\<not> prefix ''video/'' (type notes_txt)"
    by (simp add: notes_txt_def)
  have script: "status_script (service ''files/a'' [ACTIVE]) = replicate 0 PROCESSING @ ACTIVE # []"
    by (simp add: service_def)
  have video: "prefix ''video/'' (type clip_a)"
    by (simp add: clip_a_def)
  have ran: "uploadVideo (Some clip_a) initial_state (service ''files/a'' [ACTIVE]) =
      Some (initial_state\<lparr>isLoadingVideo := False, videoError := False,
              vidUrl := Some (ObjectURL clip_a),
              file_cell := Some ((uploaded_file clip_a (service ''files/a'' [ACTIVE]))\<lparr>state := ACTIVE\<rparr>)\<rparr>,
            (service ''files/a'' [ACTIVE])\<lparr>status_script := [], upload_calls := 1,
              get_calls := 1\<rparr>)"
    using video uploadFile_script [OF script, of clip_a]
    by (simp add: uploadVideo_def service_def)
  from non_video_never_uploaded [of notes_txt initial_state "service ''files/a'' [ACTIVE]"
      "Some clip_a"]
  show ?thesis
    using no_video video ran by (simp add: service_def)
qed

section \<open>Properties of the dispatcher\<close>

lemma backslash_not_apostrophe: "backslash \<noteq> apostrophe"
  by (simp add: backslash_def apostrophe_def)

lemma replace_escaped_occurrence:
  "replace_escaped_apostrophes (xs @ backslash # apostrophe # ys) =
     replace_escaped_apostrophes xs @ apostrophe # replace_escaped_apostrophes ys"
  by (induction xs rule: replace_escaped_apostrophes.induct)
     (simp_all add: backslash_not_apostrophe)

lemma replace_escaped_no_backslash:
  "backslash \<notin> set xs \<Longrightarrow> replace_escaped_apostrophes xs = xs"
  by (induction xs rule: replace_escaped_apostrophes.induct) auto

lemma replace_escaped_text: "replace_escaped_apostrophes escaped_text = [CHR ''A'', apostrophe, CHR ''B'']"
  by (simp add: escaped_text_def backslash_def apostrophe_def)

lemma map_timecodes_all_text:
  "\<forall>t \<in> set ts. tc_text t \<noteq> None \<Longrightarrow>
   map_timecodes ts =
     Inr (map (\<lambda>t. t\<lparr>tc_text := map_option replace_escaped_apostrophes (tc_text t)\<rparr>) ts)"
  by (induction ts) (auto simp: normalize_item_def)

lemma map_timecodes_absent_text:
  "t \<in> set ts \<Longrightarrow> tc_text t = None \<Longrightarrow> map_timecodes ts = Inl TypeError"
  by (induction ts) (auto simp: normalize_item_def split: option.splits sum.splits)

lemma dispatch_first:
  "dispatch \<lparr>functionCalls = Some (c # cs)\<rparr> st = invoke (call_name c) (call_args c) st"
  by (simp add: dispatch_def first_call_def)

text \<open>
  Claim C3. For a response whose function-call list is not empty, the outcome of the
  dispatch and of the whole of \<open>onModeSelect\<close> is the outcome for the list cut down to its
  first call: the calls after the first have no effect. When the first call names a declared
  tool, the outcome is that of the tool's handler applied to the state and to the arguments
  of that first call.
\<close>

theorem only_first_call_dispatched:
  "dispatch \<lparr>functionCalls = Some (c # cs)\<rparr> st = dispatch \<lparr>functionCalls = Some [c]\<rparr> st \<and>
   onModeSelect modes mode \<lparr>functionCalls = Some (c # cs)\<rparr> st w =
     onModeSelect modes mode \<lparr>functionCalls = Some [c]\<rparr> st w \<and>
   (call_name c = ''set_timecodes'' \<or> call_name c = ''set_timecodes_with_objects'' \<longrightarrow>
      dispatch \<lparr>functionCalls = Some (c # cs)\<rparr> st = setTimecodes (call_args c) st) \<and>
   (call_name c = ''set_timecodes_with_numeric_values'' \<longrightarrow>
      dispatch \<lparr>functionCalls = Some (c # cs)\<rparr> st = setTimecodeList_handler (call_args c) st)"
proof -
  have same: "dispatch \<lparr>functionCalls = Some (c # cs)\<rparr> st' =
      dispatch \<lparr>functionCalls = Some [c]\<rparr> st'" for st' :: "'a app_state"
    by (simp add: dispatch_first)
  have "onModeSelect modes mode \<lparr>functionCalls = Some (c # cs)\<rparr> st w =
     onModeSelect modes mode \<lparr>functionCalls = Some [c]\<rparr> st w"
    by (cases "file_cell st") (simp_all add: onModeSelect_def generateContent_def same)
  moreover have "call_name c = ''set_timecodes'' \<or> call_name c = ''set_timecodes_with_objects'' \<longrightarrow>
      dispatch \<lparr>functionCalls = Some (c # cs)\<rparr> st = setTimecodes (call_args c) st"
    by (auto simp: dispatch_first invoke_def)
  moreover have "call_name c = ''set_timecodes_with_numeric_values'' \<longrightarrow>
      dispatch \<lparr>functionCalls = Some (c # cs)\<rparr> st = setTimecodeList_handler (call_args c) st"
    by (simp add: dispatch_first invoke_def)
  ultimately show ?thesis
    using same [of st] by blast
qed

theorem only_first_call_dispatched_witness:
  "call_name \<lparr>call_name = ''set_timecodes_with_numeric_values'',
              call_args = \<lparr>timecodes = [bare_item, valued_item]\<rparr>\<rparr> =
     ''set_timecodes_with_numeric_values'' \<and>
   dispatch
     \<lparr>functionCalls = Some
        [\<lparr>call_name = ''set_timecodes_with_numeric_values'',
          call_args = \<lparr>timecodes = [bare_item, valued_item]\<rparr>\<rparr>,
         \<lparr>call_name = ''set_timecodes'', call_args = \<lparr>timecodes = [caption_item]\<rparr>\<rparr>]\<rparr>
     initial_state =
     (None, initial_state\<lparr>timecodeList := Some [bare_item, valued_item]\<rparr>)"
proof -
  define c :: "int function_call" where
    "c = \<lparr>call_name = ''set_timecodes_with_numeric_values'',
          call_args = \<lparr>timecodes = [bare_item, valued_item]\<rparr>\<rparr>"
  define cs :: "int function_call list" where
    "cs = [\<lparr>call_name = ''set_timecodes'', call_args = \<lparr>timecodes = [caption_item]\<rparr>\<rparr>]"
  have named: "call_name c = ''set_timecodes_with_numeric_values''"
    by (simp add: c_def)
  from only_first_call_dispatched
    [of c cs initial_state example_modes "''Chart''" "service ''files/a'' []"]
  have "call_name c = ''set_timecodes_with_numeric_values'' \<longrightarrow>
      dispatch \<lparr>functionCalls = Some (c # cs)\<rparr> initial_state =
        setTimecodeList_handler (call_args c) initial_state"
    by blast
  with named have "dispatch \<lparr>functionCalls = Some (c # cs)\<rparr> initial_state =
      (None, initial_state\<lparr>timecodeList := Some [bare_item, valued_item]\<rparr>)"
    by (simp add: setTimecodeList_handler_def c_def)
  with named show ?thesis
    by (simp add: c_def cs_def)
qed

text \<open>
  Claim C4. For a response whose function-call list is absent or empty the dispatch changes
  nothing and raises nothing. \<open>onModeSelect\<close> as a whole leaves \<open>timecodeList\<close> as it was; when
  a file is at hand it completes without error, having changed only the search query, the
  active mode, the chart label and the loading flag.
\<close>

theorem empty_call_list_is_noop:
  assumes "functionCalls resp = None \<or> functionCalls resp = Some []"
  shows "dispatch resp st = (None, st) \<and>
         timecodeList (fst (snd (onModeSelect modes mode resp st w))) = timecodeList st \<and>
         (file_cell st = Some uf \<longrightarrow>
            onModeSelect modes mode resp st w =
              (None,
               st\<lparr>searchQuery := [], activeMode := Some mode, isLoading := False,
                  chartLabel := chartPrompt st\<rparr>,
               w\<lparr>generate_calls :=
                    generate_calls w @ [(promptText modes mode st, mimeType uf, uri uf)]\<rparr>))"
proof -
  have noop: "dispatch resp st' = (None, st')" for st' :: "'a app_state"
    using assms by (auto simp: dispatch_def first_call_def)
  have "timecodeList (fst (snd (onModeSelect modes mode resp st w))) = timecodeList st"
    by (cases "file_cell st") (simp_all add: onModeSelect_def generateContent_def noop)
  moreover have "file_cell st = Some uf \<longrightarrow>
            onModeSelect modes mode resp st w =
              (None,
               st\<lparr>searchQuery := [], activeMode := Some mode, isLoading := False,
                  chartLabel := chartPrompt st\<rparr>,
               w\<lparr>generate_calls :=
                    generate_calls w @ [(promptText modes mode st, mimeType uf, uri uf)]\<rparr>)"
    by (simp add: onModeSelect_def generateContent_def noop)
  ultimately show ?thesis
    using noop [of st] by blast
qed

theorem empty_call_list_is_noop_witness:
  "functionCalls \<lparr>functionCalls = Some ([] :: int function_call list)\<rparr> = Some [] \<and>
   file_cell (initial_state\<lparr>file_cell := Some ready_file, timecodeList := Some [caption_item]\<rparr>) =
     Some ready_file \<and>
   dispatch \<lparr>functionCalls = Some []\<rparr>
     (initial_state\<lparr>file_cell := Some ready_file, timecodeList := Some [caption_item]\<rparr>) =
     (None, initial_state\<lparr>file_cell := Some ready_file, timecodeList := Some [caption_item]\<rparr>) \<and>
   (case onModeSelect example_modes ''A/V captions'' \<lparr>functionCalls = Some []\<rparr>
      (initial_state\<lparr>file_cell := Some ready_file, timecodeList := Some [caption_item]\<rparr>)
      (service ''files/a'' []) of
      (err, st', w') \<Rightarrow> (err, timecodeList st', isLoading st', length (generate_calls w'))) =
     (None, Some [caption_item], False, 1)"
proof -
  have empty: "functionCalls \<lparr>functionCalls = Some ([] :: int function_call list)\<rparr> = None \<or>
      functionCalls \<lparr>functionCalls = Some ([] :: int function_call list)\<rparr> = Some []"
    by simp
  show ?thesis
    using empty_call_list_is_noop [OF empty,
        of "initial_state\<lparr>file_cell := Some ready_file, timecodeList := Some [caption_item]\<rparr>"
           example_modes "''A/V captions''" "service ''files/a'' []" ready_file]
    by (simp add: initial_state_def service_def)
qed

text \<open>
  Claim C5, as stated, fails. The table is indexed by the name without any validation, and
  a name such as \<open>toString\<close> is none of the three declared tools but is found on
  \<open>Object.prototype\<close>: the inherited function is called, returns, and the dispatch ends
  silently with no error and no change.
\<close>

theorem unknown_name_silently_skipped:
  "''toString'' \<notin> set declared_tools \<and>
   dispatch \<lparr>functionCalls = Some [\<lparr>call_name = ''toString'', call_args = \<lparr>timecodes = [caption_item]\<rparr>\<rparr>]\<rparr>
     initial_state = (None, initial_state) \<and>
   onModeSelect example_modes ''A/V captions''
     \<lparr>functionCalls = Some [\<lparr>call_name = ''toString'', call_args = \<lparr>timecodes = [caption_item]\<rparr>\<rparr>]\<rparr>
     (initial_state\<lparr>file_cell := Some ready_file\<rparr>) (service ''files/a'' []) =
     (None,
      initial_state\<lparr>file_cell := Some ready_file, activeMode := Some ''A/V captions''\<rparr>,
      (service ''files/a'' [])\<lparr>generate_calls :=
         [(''Generate captions for each scene'', ''video/mp4'', ''https://files.example/files/a'')]\<rparr>)"
  by (simp add: declared_tools_def dispatch_def first_call_def invoke_def inherited_callables_def
      onModeSelect_def generateContent_def promptText_def example_modes_def initial_state_def
      service_def ready_file_def)

text \<open>
  Claim C5, amended. A first call whose name is neither a declared tool nor a member
  inherited from \<open>Object.prototype\<close> that can be called makes the dispatch throw a
  \<open>TypeError\<close> (the call of \<open>undefined\<close>); the code has no error class of its own for it. The
  result list is unchanged, and \<open>onModeSelect\<close> stops there: \<open>isLoading\<close> stays set.
\<close>

theorem unknown_name_throws_TypeError:
  assumes "nm \<notin> set declared_tools" and "nm \<notin> set inherited_callables"
  shows "dispatch \<lparr>functionCalls = Some (\<lparr>call_name = nm, call_args = a\<rparr> # cs)\<rparr> st =
           (Some TypeError, st) \<and>
         (file_cell st = Some uf \<longrightarrow>
            onModeSelect modes mode \<lparr>functionCalls = Some (\<lparr>call_name = nm, call_args = a\<rparr> # cs)\<rparr>
              st w =
              (Some TypeError,
               st\<lparr>searchQuery := [], activeMode := Some mode, isLoading := True,
                  chartLabel := chartPrompt st\<rparr>,
               w\<lparr>generate_calls :=
                    generate_calls w @ [(promptText modes mode st, mimeType uf, uri uf)]\<rparr>))"
proof -
  have thrown: "dispatch \<lparr>functionCalls = Some (\<lparr>call_name = nm, call_args = a\<rparr> # cs)\<rparr> st' =
           (Some TypeError, st')" for st' :: "'a app_state"
    using assms by (simp add: dispatch_first invoke_def declared_tools_def)
  show ?thesis
    by (simp add: thrown onModeSelect_def generateContent_def)
qed

theorem unknown_name_throws_TypeError_witness:
  "''summarize'' \<notin> set declared_tools \<and> ''summarize'' \<notin> set inherited_callables \<and>
   file_cell (initial_state\<lparr>file_cell := Some ready_file\<rparr>) = Some ready_file \<and>
   dispatch \<lparr>functionCalls = Some [\<lparr>call_name = ''summarize'', call_args = \<lparr>timecodes = [caption_item]\<rparr>\<rparr>]\<rparr>
     initial_state = (Some TypeError, initial_state) \<and>
   (case onModeSelect example_modes ''A/V captions''
      \<lparr>functionCalls = Some [\<lparr>call_name = ''summarize'', call_args = \<lparr>timecodes = [caption_item]\<rparr>\<rparr>]\<rparr>
      (initial_state\<lparr>file_cell := Some ready_file\<rparr>) (service ''files/a'' []) of
      (err, st', w') \<Rightarrow> (err, timecodeList st', isLoading st')) =
     (Some TypeError, None, True)"
proof -
  have undeclared: "''summarize'' \<notin> set declared_tools"
    by (simp add: declared_tools_def)
  have not_inherited: "''summarize'' \<notin> set inherited_callables"
    by (simp add: inherited_callables_def)
  show ?thesis
    using undeclared not_inherited
      unknown_name_throws_TypeError [OF undeclared not_inherited,
        of "\<lparr>timecodes = [caption_item]\<rparr>" "[]" initial_state]
      unknown_name_throws_TypeError [OF undeclared not_inherited,
        of "\<lparr>timecodes = [caption_item]\<rparr>" "[]" "initial_state\<lparr>file_cell := Some ready_file\<rparr>"
           ready_file example_modes "''A/V captions''" "service ''files/a'' []"]
    by (simp add: initial_state_def)
qed

text \<open>
  Claim C6, as stated, fails. \<open>set_timecodes_with_numeric_values\<close> is a tool that produces
  timecodes, and its handler stores the argument list as it is: an item whose text is
  \<open>A\'B\<close> keeps that text, where the rewriting would give \<open>A'B\<close>.
\<close>

theorem numeric_values_not_normalized:
  "dispatch
     \<lparr>functionCalls = Some
        [\<lparr>call_name = ''set_timecodes_with_numeric_values'',
          call_args = \<lparr>timecodes = [valued_item]\<rparr>\<rparr>]\<rparr>
     initial_state =
     (None, initial_state\<lparr>timecodeList := Some [valued_item]\<rparr>) \<and>
   tc_text valued_item = Some escaped_text \<and>
   replace_escaped_apostrophes escaped_text = [CHR ''A'', apostrophe, CHR ''B''] \<and>
   escaped_text \<noteq> [CHR ''A'', apostrophe, CHR ''B'']"
  by (simp add: dispatch_first invoke_def setTimecodeList_handler_def valued_item_def
      escaped_text_def backslash_def apostrophe_def)

text \<open>
  Claim C6, amended. For a call to \<open>set_timecodes\<close> or \<open>set_timecodes_with_objects\<close> in which
  every item carries a text, the result list has one item per argument item, in the same
  order; the text of each is the argument's text with every backslash-apostrophe pair
  rewritten to an apostrophe (lemma \<open>replace_escaped_occurrence\<close>: each occurrence is
  rewritten, whatever precedes it), and time, objects and value are the argument's. A call to
  \<open>set_timecodes_with_numeric_values\<close> stores its items unchanged. In particular a
  \<open>set_timecodes\<close> call with the one item \<open>{time: "00:01", text: "A\\'B"}\<close>, the text being the
  four characters \<open>A\'B\<close>, yields one item whose text is \<open>A'B\<close>.
\<close>

theorem setTimecodes_normalizes_text:
  assumes "nm = ''set_timecodes'' \<or> nm = ''set_timecodes_with_objects''"
    and "\<forall>t \<in> set (timecodes a). tc_text t \<noteq> None"
  shows "\<exists>out.
           dispatch \<lparr>functionCalls = Some (\<lparr>call_name = nm, call_args = a\<rparr> # cs)\<rparr> st =
             (None, st\<lparr>timecodeList := Some out\<rparr>) \<and>
           length out = length (timecodes a) \<and>
           (\<forall>i < length out.
              tc_text (out ! i) =
                map_option replace_escaped_apostrophes (tc_text (timecodes a ! i)) \<and>
              tc_time (out ! i) = tc_time (timecodes a ! i) \<and>
              tc_objects (out ! i) = tc_objects (timecodes a ! i) \<and>
              tc_value (out ! i) = tc_value (timecodes a ! i))"
proof -
  define out where
    "out = map (\<lambda>t. t\<lparr>tc_text := map_option replace_escaped_apostrophes (tc_text t)\<rparr>) (timecodes a)"
  have "invoke nm a st = setTimecodes a st"
    using assms(1) by (auto simp: invoke_def)
  then have "dispatch \<lparr>functionCalls = Some (\<lparr>call_name = nm, call_args = a\<rparr> # cs)\<rparr> st =
      (None, st\<lparr>timecodeList := Some out\<rparr>)"
    by (simp add: dispatch_first setTimecodes_def map_timecodes_all_text [OF assms(2)] out_def)
  moreover have "length out = length (timecodes a)"
    by (simp add: out_def)
  moreover have "\<forall>i < length out.
              tc_text (out ! i) =
                map_option replace_escaped_apostrophes (tc_text (timecodes a ! i)) \<and>
              tc_time (out ! i) = tc_time (timecodes a ! i) \<and>
              tc_objects (out ! i) = tc_objects (timecodes a ! i) \<and>
              tc_value (out ! i) = tc_value (timecodes a ! i)"
    by (simp add: out_def)
  ultimately show ?thesis by blast
qed

theorem setTimecodes_normalizes_text_witness:
  "tc_text caption_item = Some escaped_text \<and>
   dispatch
     \<lparr>functionCalls = Some
        [\<lparr>call_name = ''set_timecodes'', call_args = \<lparr>timecodes = [caption_item]\<rparr>\<rparr>]\<rparr>
     initial_state =
     (None,
      initial_state\<lparr>timecodeList := Some
        [\<lparr>tc_time = ''00:01'', tc_text = Some [CHR ''A'', apostrophe, CHR ''B''],
          tc_objects = None, tc_value = None\<rparr>]\<rparr>)"
proof -
  have named: "''set_timecodes'' = ''set_timecodes'' \<or> ''set_timecodes'' = ''set_timecodes_with_objects''"
    by simp
  have texts: "\<forall>t \<in> set (timecodes \<lparr>timecodes = [caption_item]\<rparr>). tc_text t \<noteq> None"
    by (simp add: caption_item_def)
  from setTimecodes_normalizes_text [OF named texts, of "[]" initial_state]
  obtain out where
    res: "dispatch
       \<lparr>functionCalls = Some
          [\<lparr>call_name = ''set_timecodes'', call_args = \<lparr>timecodes = [caption_item]\<rparr>\<rparr>]\<rparr>
       initial_state = (None, initial_state\<lparr>timecodeList := Some out\<rparr>)"
    and len: "length out = length (timecodes \<lparr>timecodes = [caption_item]\<rparr>)"
    and items: "\<forall>i < length out.
              tc_text (out ! i) =
                map_option replace_escaped_apostrophes
                  (tc_text (timecodes \<lparr>timecodes = [caption_item]\<rparr> ! i)) \<and>
              tc_time (out ! i) = tc_time (timecodes \<lparr>timecodes = [caption_item]\<rparr> ! i) \<and>
              tc_objects (out ! i) = tc_objects (timecodes \<lparr>timecodes = [caption_item]\<rparr> ! i) \<and>
              tc_value (out ! i) = tc_value (timecodes \<lparr>timecodes = [caption_item]\<rparr> ! i)"
    by blast
  from len have one: "length out = 1" by simp
  then have single: "out = [out ! 0]"
    by (cases out) auto
  from one items have fields: "tc_text (out ! 0) = Some [CHR ''A'', apostrophe, CHR ''B'']"
    "tc_time (out ! 0) = ''00:01''" "tc_objects (out ! 0) = None" "tc_value (out ! 0) = None"
    by (simp_all add: caption_item_def replace_escaped_text)
  have "out ! 0 = \<lparr>tc_time = ''00:01'', tc_text = Some [CHR ''A'', apostrophe, CHR ''B''],
          tc_objects = None, tc_value = None\<rparr>"
    by (rule timecode.equality) (simp_all add: fields)
  with single have "out = [\<lparr>tc_time = ''00:01'', tc_text = Some [CHR ''A'', apostrophe, CHR ''B''],
          tc_objects = None, tc_value = None\<rparr>]"
    by simp
  with res show ?thesis
    by (simp add: caption_item_def)
qed

text \<open>
  Claim C10. A call to \<open>set_timecodes\<close> or \<open>set_timecodes_with_objects\<close> with at least one item
  whose text is absent throws a \<open>TypeError\<close> and produces no result list: the state is as it
  was. The type of \<open>tc_text\<close> allows the absence, and the third handler accepts such an item.
\<close>

theorem absent_text_throws:
  assumes "nm = ''set_timecodes'' \<or> nm = ''set_timecodes_with_objects''"
    and "t \<in> set (timecodes a)" and "tc_text t = None"
  shows "dispatch \<lparr>functionCalls = Some (\<lparr>call_name = nm, call_args = a\<rparr> # cs)\<rparr> st =
           (Some TypeError, st) \<and>
         dispatch \<lparr>functionCalls = Some
             (\<lparr>call_name = ''set_timecodes_with_numeric_values'', call_args = a\<rparr> # cs)\<rparr> st =
           (None, st\<lparr>timecodeList := Some (timecodes a)\<rparr>)"
proof -
  have "invoke nm a st = setTimecodes a st"
    using assms(1) by (auto simp: invoke_def)
  then have "dispatch \<lparr>functionCalls = Some (\<lparr>call_name = nm, call_args = a\<rparr> # cs)\<rparr> st =
           (Some TypeError, st)"
    by (simp add: dispatch_first setTimecodes_def map_timecodes_absent_text [OF assms(2,3)])
  then show ?thesis
    by (simp add: dispatch_first invoke_def setTimecodeList_handler_def)
qed

theorem absent_text_throws_witness:
  "bare_item \<in> set (timecodes \<lparr>timecodes = [caption_item, bare_item]\<rparr>) \<and>
   tc_text bare_item = None \<and>
   dispatch
     \<lparr>functionCalls = Some
        [\<lparr>call_name = ''set_timecodes_with_objects'',
          call_args = \<lparr>timecodes = [caption_item, bare_item]\<rparr>\<rparr>]\<rparr>
     initial_state = (Some TypeError, initial_state)"
proof -
  have named: "''set_timecodes_with_objects'' = ''set_timecodes'' \<or>
      ''set_timecodes_with_objects'' = ''set_timecodes_with_objects''"
    by simp
  have member: "bare_item \<in> set (timecodes \<lparr>timecodes = [caption_item, bare_item]\<rparr>)"
    by simp
  have absent: "tc_text bare_item = None"
    by (simp add: bare_item_def)
  show ?thesis
    using member absent absent_text_throws [OF named member absent, of "[]" initial_state]
    by simp
qed

section \<open>Properties of the prompt compilation\<close>

lemma ui_run_append: "ui_run st (xs @ ys) = ui_run (ui_run st xs) ys"
  by (simp add: ui_run_def)

lemma ui_run_typing_chartMode:
  "chartMode (ui_run st (map ChangeChartPrompt typed)) = chartMode st"
  by (induction typed arbitrary: st) (simp_all add: ui_run_def)

lemma ui_run_typing_selectedMode:
  "selectedMode (ui_run st (map ChangeChartPrompt typed)) = selectedMode st"
  by (induction typed arbitrary: st) (simp_all add: ui_run_def)

lemma ui_run_typing_chartPrompt:
  "chartPrompt (ui_run st (map ChangeChartPrompt typed)) = last (chartPrompt st # typed)"
  by (induction typed arbitrary: st) (simp_all add: ui_run_def)

lemma promptText_chart:
  "prompt (modes mode) = PromptFn f \<Longrightarrow> subModes (modes mode) = Some sub \<Longrightarrow>
   promptText modes mode st =
     f (if selectedMode st = ''Chart'' \<and> chartMode st = ''Custom'' then Some (chartPrompt st)
        else sub (chartMode st))"
  by (simp add: promptText_def isCustomChartMode_def isChartMode_def)

text \<open>
  Claim C7. In Chart mode, after any events, once a preset sub-mode \<open>m\<close> (not \<open>'Custom'\<close>) has
  been clicked, the compiled prompt is the prompt function applied to the canned fragment of
  \<open>m\<close>, whatever custom text was typed before or is typed afterwards, as long as the custom
  field is not focused. Once the custom field has been focused, the prompt is built from the
  custom text as last typed. Clicking a preset after that gives the preset's fragment again.
\<close>

theorem last_focused_input_wins:
  assumes "prompt (modes ''Chart'') = PromptFn f"
    and "subModes (modes ''Chart'') = Some sub"
    and "selectedMode (ui_run st evs) = ''Chart''"
    and "m \<noteq> ''Custom''"
  shows "promptText modes ''Chart''
           (ui_run st (evs @ ClickChartMode m # map ChangeChartPrompt typed)) = f (sub m) \<and>
         promptText modes ''Chart''
           (ui_run st (evs @ FocusChartPrompt # map ChangeChartPrompt typed)) =
           f (Some (last (chartPrompt (ui_run st evs) # typed))) \<and>
         promptText modes ''Chart''
           (ui_run st (evs @ FocusChartPrompt # map ChangeChartPrompt typed @ [ClickChartMode m])) =
           f (sub m)"
proof -
  define s0 where "s0 = ui_run st evs"
  have click: "ui_run st (evs @ ClickChartMode m # map ChangeChartPrompt typed) =
      ui_run (s0\<lparr>chartMode := m\<rparr>) (map ChangeChartPrompt typed)"
    by (simp add: ui_run_def s0_def)
  have focus: "ui_run st (evs @ FocusChartPrompt # map ChangeChartPrompt typed) =
      ui_run (s0\<lparr>chartMode := ''Custom''\<rparr>) (map ChangeChartPrompt typed)"
    by (simp add: ui_run_def s0_def)
  have again: "ui_run st (evs @ FocusChartPrompt # map ChangeChartPrompt typed @ [ClickChartMode m]) =
      (ui_run (s0\<lparr>chartMode := ''Custom''\<rparr>) (map ChangeChartPrompt typed))\<lparr>chartMode := m\<rparr>"
    by (simp add: ui_run_def s0_def)
  have "promptText modes ''Chart''
           (ui_run st (evs @ ClickChartMode m # map ChangeChartPrompt typed)) = f (sub m)"
    using assms(4)
    by (simp add: click promptText_chart [of modes "''Chart''", OF assms(1,2)] ui_run_typing_chartMode)
  moreover have "promptText modes ''Chart''
           (ui_run st (evs @ FocusChartPrompt # map ChangeChartPrompt typed)) =
           f (Some (last (chartPrompt (ui_run st evs) # typed)))"
    using assms(3)
    by (simp add: focus promptText_chart [of modes "''Chart''", OF assms(1,2)] ui_run_typing_chartMode
        ui_run_typing_selectedMode ui_run_typing_chartPrompt s0_def)
  moreover have "promptText modes ''Chart''
           (ui_run st (evs @ FocusChartPrompt # map ChangeChartPrompt typed @ [ClickChartMode m])) =
           f (sub m)"
    using assms(4) by (simp add: again promptText_chart [of modes "''Chart''", OF assms(1,2)])
  ultimately show ?thesis by blast
qed

theorem last_focused_input_wins_witness:
  "prompt (example_modes ''Chart'') = PromptFn (splice ''Generate chart data: '') \<and>
   subModes (example_modes ''Chart'') = Some example_subModes \<and>
   selectedMode (ui_run initial_state [ClickMode ''Chart'']) = ''Chart'' \<and>
   ''Importance'' \<noteq> ''Custom'' \<and>
   promptText example_modes ''Chart''
     (ui_run initial_state
        ([ClickMode ''Chart''] @ ClickChartMode ''Importance'' #
         map ChangeChartPrompt [''count the cars''])) =
     ''Generate chart data: rate the importance of each scene'' \<and>
   promptText example_modes ''Chart''
     (ui_run initial_state
        ([ClickMode ''Chart''] @ FocusChartPrompt # map ChangeChartPrompt [''count the cars''])) =
     ''Generate chart data: count the cars'' \<and>
   promptText example_modes ''Chart''
     (ui_run initial_state
        ([ClickMode ''Chart''] @ FocusChartPrompt # map ChangeChartPrompt [''count the cars''] @
         [ClickChartMode ''Importance''])) =
     ''Generate chart data: rate the importance of each scene''"
proof -
  have p: "prompt (example_modes ''Chart'') = PromptFn (splice ''Generate chart data: '')"
    by (simp add: example_modes_def)
  have sm: "subModes (example_modes ''Chart'') = Some example_subModes"
    by (simp add: example_modes_def)
  have sel: "selectedMode (ui_run initial_state [ClickMode ''Chart'']) = ''Chart''"
    by (simp add: ui_run_def)
  have preset: "''Importance'' \<noteq> ''Custom''"
    by simp
  have frag: "example_subModes ''Importance'' = Some ''rate the importance of each scene''"
    by (simp add: example_subModes_def)
  from last_focused_input_wins
    [where modes = example_modes and st = initial_state and evs = "[ClickMode ''Chart'']"
       and typed = "[''count the cars'']", OF p sm sel preset]
  show ?thesis
    using p sm sel by (simp add: frag splice_def)
qed

section \<open>Properties of interleaved runs\<close>

text \<open>
  A run that waits in its loop, resumed until it finishes, reaches \<open>finish\<close> with its own
  terminal state, whatever the other runs of the system are (\<open>resume_loop_among\<close>). And a run
  that is resumed alone from the drop on does what the sequential reading of \<open>uploadVideo\<close>
  does: for a script of \<open>k\<close> \<open>'PROCESSING'\<close> reports and a terminal state, the drop followed by
  \<open>2 + 2 * k\<close> resumptions ends in the state and with the service that \<open>uploadVideo\<close> returns
  (\<open>single_run_agrees\<close>).
\<close>

lemma exec_append: "exec s (xs @ ys) = (case exec s xs of None \<Rightarrow> None | Some s' \<Rightarrow> exec s' ys)"
  by (induction xs arbitrary: s) (auto split: option.splits)

lemma resume_loop_among:
  assumes "i < length rs"
    and "rs ! i = \<lparr>run_file = f, run_remote = w, run_at = AwaitLoopGet h\<rparr>"
    and "status_script w = replicate j PROCESSING @ t # rest" and "t \<noteq> PROCESSING"
  shows "exec \<lparr>app = st, runs = rs\<rparr> (replicate (2 * Suc j) (Resume i)) =
         Some \<lparr>app = finish t h st,
               runs = rs[i := \<lparr>run_file = f,
                        run_remote = w\<lparr>status_script := rest, get_calls := get_calls w + j,
                                       slept_ms := slept_ms w + 5000 * Suc j\<rparr>,
                        run_at = Finished\<rparr>]\<rparr>"
  using assms
proof (induction j arbitrary: w rs)
  case 0
  then show ?case
    by (simp add: resume_def receive_state_def loop_check_def sleep_5000_def numeral_2_eq_2)
next
  case (Suc j)
  define w' where "w' = issue_get (sleep_5000 (w\<lparr>status_script := replicate j PROCESSING @ t # rest\<rparr>))"
  define rs' where "rs' = rs[i := \<lparr>run_file = f, run_remote = w', run_at = AwaitLoopGet h\<rparr>]"
  have script: "status_script w' = replicate j PROCESSING @ t # rest"
    by (simp add: w'_def issue_get_def sleep_5000_def)
  have len: "i < length rs'"
    using Suc.prems(1) by (simp add: rs'_def)
  have at: "rs' ! i = \<lparr>run_file = f, run_remote = w', run_at = AwaitLoopGet h\<rparr>"
    using Suc.prems(1) by (simp add: rs'_def)
  have two: "exec \<lparr>app = st, runs = rs\<rparr> [Resume i, Resume i] = Some \<lparr>app = st, runs = rs'\<rparr>"
    using Suc.prems(1,2,3)
    by (simp add: resume_def receive_state_def loop_check_def w'_def rs'_def)
  have split: "replicate (2 * Suc (Suc j)) (Resume i) = [Resume i, Resume i] @ replicate (2 * Suc j) (Resume i)"
    by simp
  have "exec \<lparr>app = st, runs = rs\<rparr> (replicate (2 * Suc (Suc j)) (Resume i)) =
        exec \<lparr>app = st, runs = rs'\<rparr> (replicate (2 * Suc j) (Resume i))"
    by (simp only: split exec_append two option.case)
  also have "\<dots> = Some \<lparr>app = finish t h st,
               runs = rs'[i := \<lparr>run_file = f,
                        run_remote = w'\<lparr>status_script := rest, get_calls := get_calls w' + j,
                                       slept_ms := slept_ms w' + 5000 * Suc j\<rparr>,
                        run_at = Finished\<rparr>]\<rparr>"
    by (rule Suc.IH [OF len at script Suc.prems(4)])
  also have "w'\<lparr>status_script := rest, get_calls := get_calls w' + j,
                                       slept_ms := slept_ms w' + 5000 * Suc j\<rparr> =
      w\<lparr>status_script := rest, get_calls := get_calls w + Suc j,
                                       slept_ms := slept_ms w + 5000 * Suc (Suc j)\<rparr>"
    by (simp add: w'_def issue_get_def sleep_5000_def)
  finally show ?case
    by (simp add: rs'_def)
qed

lemma single_run_agrees:
  assumes script: "status_script w = replicate k PROCESSING @ t # rest"
    and terminal: "t \<noteq> PROCESSING"
    and video: "prefix ''video/'' (type f)"
  shows "exec \<lparr>app = st, runs = []\<rparr> (Drop (Some f) w # replicate (2 + 2 * k) (Resume 0)) =
         map_option (\<lambda>(st', w'). \<lparr>app = st', runs = [\<lparr>run_file = f, run_remote = w', run_at = Finished\<rparr>]\<rparr>)
           (uploadVideo (Some f) st w)"
proof -
  define st2 where "st2 = st\<lparr>isLoadingVideo := True, videoError := False, vidUrl := Some (ObjectURL f)\<rparr>"
  define h where "h = uploaded_file f w"
  define wf where "wf = w\<lparr>status_script := rest, upload_calls := Suc (upload_calls w),
             get_calls := get_calls w + Suc k, slept_ms := slept_ms w + 5000 * k\<rparr>"
  have seq: "uploadVideo (Some f) st w = Some (finish t h st2, wf)"
    using video uploadFile_script [OF script terminal, of f]
    by (simp add: uploadVideo_def finish_def st2_def h_def wf_def)
  have conc: "exec \<lparr>app = st, runs = []\<rparr> (Drop (Some f) w # replicate (2 + 2 * k) (Resume 0)) =
      Some \<lparr>app = finish t h st2, runs = [\<lparr>run_file = f, run_remote = wf, run_at = Finished\<rparr>]\<rparr>"
  proof (cases k)
    case 0
    then show ?thesis
      using script terminal video
      by (simp add: start_run_def resume_def receive_state_def loop_check_def issue_get_def
          issue_upload_def uploaded_file_def st2_def h_def wf_def numeral_2_eq_2)
  next
    case (Suc j)
    define w2 where "w2 = issue_get ((issue_get (issue_upload w))\<lparr>status_script := replicate j PROCESSING @ t # rest\<rparr>)"
    have s2: "status_script w2 = replicate j PROCESSING @ t # rest"
      by (simp add: w2_def issue_get_def)
    have pre: "exec \<lparr>app = st, runs = []\<rparr> [Drop (Some f) w, Resume 0, Resume 0] =
        Some \<lparr>app = st2, runs = [\<lparr>run_file = f, run_remote = w2, run_at = AwaitLoopGet h\<rparr>]\<rparr>"
      using script video Suc
      by (simp add: start_run_def resume_def receive_state_def loop_check_def issue_get_def
          issue_upload_def uploaded_file_def st2_def h_def w2_def)
    have split: "Drop (Some f) w # replicate (2 + 2 * k) (Resume 0) =
        [Drop (Some f) w, Resume 0, Resume 0] @ replicate (2 * Suc j) (Resume 0)"
      using Suc by simp
    have fin: "w2\<lparr>status_script := rest, get_calls := get_calls w2 + j,
              slept_ms := slept_ms w2 + 5000 * Suc j\<rparr> = wf"
      using Suc by (simp add: w2_def wf_def issue_get_def issue_upload_def)
    have "exec \<lparr>app = st, runs = []\<rparr> (Drop (Some f) w # replicate (2 + 2 * k) (Resume 0)) =
        exec \<lparr>app = st, runs = []\<rparr>
          ([Drop (Some f) w, Resume 0, Resume 0] @ replicate (2 * Suc j) (Resume 0))"
      by (simp only: split)
    also have "\<dots> =
        exec \<lparr>app = st2, runs = [\<lparr>run_file = f, run_remote = w2, run_at = AwaitLoopGet h\<rparr>]\<rparr>
          (replicate (2 * Suc j) (Resume 0))"
      by (simp only: exec_append pre option.case)
    also have "\<dots> = Some \<lparr>app = finish t h st2,
               runs = [\<lparr>run_file = f, run_remote = w2, run_at = AwaitLoopGet h\<rparr>]
                 [0 := \<lparr>run_file = f,
                        run_remote = w2\<lparr>status_script := rest, get_calls := get_calls w2 + j,
                                       slept_ms := slept_ms w2 + 5000 * Suc j\<rparr>,
                        run_at = Finished\<rparr>]\<rparr>"
      by (rule resume_loop_among [OF _ _ s2 terminal]) simp_all
    also have "\<dots> = Some \<lparr>app = finish t h st2,
               runs = [\<lparr>run_file = f,
                        run_remote = w2\<lparr>status_script := rest, get_calls := get_calls w2 + j,
                                       slept_ms := slept_ms w2 + 5000 * Suc j\<rparr>,
                        run_at = Finished\<rparr>]\<rparr>"
      by simp
    finally show ?thesis
      by (simp only: fin)
  qed
  show ?thesis by (simp only: seq conc option.map prod.case)
qed

text \<open>
  Claim C9, as stated, fails. Clip \<open>a\<close> is dropped and its upload is acknowledged; then clip
  \<open>b\<close> is dropped while the run for \<open>a\<close> is still waiting for its first status answer. At that
  moment the run for \<open>a\<close> has issued one status query. The run for \<open>b\<close> completes; the run for
  \<open>a\<close> then goes on, issues a second status query, and on completion overwrites the handle
  that the newer run had stored: the \<open>file\<close> cell ends with the asset of \<open>a\<close> while the video
  shown is \<open>b\<close>.
\<close>

theorem stale_run_overwrites_newer:
  "map_option (\<lambda>s. map (get_calls \<circ> run_remote) (runs s))
     (exec \<lparr>app = initial_state, runs = []\<rparr>
        [Drop (Some clip_a) (service ''files/a'' [PROCESSING, ACTIVE]), Resume 0,
         Drop (Some clip_b) (service ''files/b'' [ACTIVE])]) = Some [1, 0] \<and>
   map_option
     (\<lambda>s. (map (get_calls \<circ> run_remote) (runs s), map run_at (runs s),
            map_option file_name (file_cell (app s)), vidUrl (app s)))
     (exec \<lparr>app = initial_state, runs = []\<rparr>
        [Drop (Some clip_a) (service ''files/a'' [PROCESSING, ACTIVE]), Resume 0,
         Drop (Some clip_b) (service ''files/b'' [ACTIVE]),
         Resume 1, Resume 1, Resume 0, Resume 0, Resume 0]) =
     Some ([2, 1], [Finished, Finished], Some ''files/a'', Some (ObjectURL clip_b))"
  by (simp add: start_run_def resume_def loop_check_def finish_def receive_state_def
      issue_get_def issue_upload_def sleep_5000_def uploaded_file_def service_def clip_a_def
      clip_b_def initial_state_def)

lemma resume_after_sleep:
  assumes "i < length (runs s)" and "run_at (runs s ! i) = AwaitSleep h PROCESSING"
  shows "\<exists>s'. sys_step s (Resume i) = Some s' \<and> app s' = app s \<and>
              run_at (runs s' ! i) = AwaitLoopGet h \<and>
              get_calls (run_remote (runs s' ! i)) = Suc (get_calls (run_remote (runs s ! i)))"
  using assms
  by (simp add: resume_def loop_check_def issue_get_def sleep_5000_def)

text \<open>
  Claim C9, amended. The code has no cancellation token and no generation token. A run
  that waits in its polling loop goes on to its own terminal state whatever other runs exist,
  finished or in flight, and whatever they have written: with \<open>j\<close> further \<open>'PROCESSING'\<close>
  reports ahead of the ready one it issues \<open>j\<close> further status queries, and on completion it
  stores its own file in the \<open>file\<close> cell and clears the loading flag, unconditionally; the
  other runs are untouched. So the cell holds the handle of the run that completed last,
  not of the run that was started last.
\<close>

theorem last_completion_wins:
  assumes "i < length (runs s)"
    and "runs s ! i = \<lparr>run_file = f, run_remote = w, run_at = AwaitLoopGet h\<rparr>"
    and "status_script w = replicate j PROCESSING @ ACTIVE # rest"
  shows "\<exists>s'. exec s (replicate (2 * Suc j) (Resume i)) = Some s' \<and>
              app s' = (app s)\<lparr>file_cell := Some (h\<lparr>state := ACTIVE\<rparr>), isLoadingVideo := False\<rparr> \<and>
              length (runs s') = length (runs s) \<and>
              run_at (runs s' ! i) = Finished \<and>
              get_calls (run_remote (runs s' ! i)) = get_calls w + j \<and>
              (\<forall>k < length (runs s). k \<noteq> i \<longrightarrow> runs s' ! k = runs s ! k)"
proof -
  define s' where
    "s' = \<lparr>app = finish ACTIVE h (app s),
               runs = (runs s)[i := \<lparr>run_file = f,
                        run_remote = w\<lparr>status_script := rest, get_calls := get_calls w + j,
                                       slept_ms := slept_ms w + 5000 * Suc j\<rparr>,
                        run_at = Finished\<rparr>]\<rparr>"
  have "exec \<lparr>app = app s, runs = runs s\<rparr> (replicate (2 * Suc j) (Resume i)) = Some s'"
    unfolding s'_def by (rule resume_loop_among [OF assms(1,2,3)]) simp
  moreover have "\<lparr>app = app s, runs = runs s\<rparr> = s"
    by simp
  ultimately have run: "exec s (replicate (2 * Suc j) (Resume i)) = Some s'"
    by (simp only:)
  have "app s' = (app s)\<lparr>file_cell := Some (h\<lparr>state := ACTIVE\<rparr>), isLoadingVideo := False\<rparr>"
    by (simp add: s'_def finish_def)
  moreover have "length (runs s') = length (runs s)"
    by (simp add: s'_def)
  moreover have "run_at (runs s' ! i) = Finished"
    using assms(1) by (simp add: s'_def)
  moreover have "get_calls (run_remote (runs s' ! i)) = get_calls w + j"
    using assms(1) by (simp add: s'_def)
  moreover have "\<forall>k < length (runs s). k \<noteq> i \<longrightarrow> runs s' ! k = runs s ! k"
    by (simp add: s'_def)
  ultimately show ?thesis
    using run by blast
qed

theorem last_completion_wins_witness:
  "map_option (\<lambda>s'. (file_cell (app s'), map run_at (runs s'), map (get_calls \<circ> run_remote) (runs s')))
     (exec
        \<lparr>app = initial_state\<lparr>vidUrl := Some (ObjectURL clip_b),
                file_cell := Some (ready_file\<lparr>file_name := ''files/b''\<rparr>)\<rparr>,
         runs = [\<lparr>run_file = clip_a, run_remote = service ''files/a'' [ACTIVE],
                  run_at = AwaitLoopGet ready_file\<rparr>,
                 \<lparr>run_file = clip_b, run_remote = service ''files/b'' [], run_at = Finished\<rparr>]\<rparr>
        (replicate (2 * Suc 0) (Resume 0))) =
     Some (Some ready_file, [Finished, Finished], [0, 0])"
proof -
  define s :: "int system" where
    "s = \<lparr>app = initial_state\<lparr>vidUrl := Some (ObjectURL clip_b),
                file_cell := Some (ready_file\<lparr>file_name := ''files/b''\<rparr>)\<rparr>,
         runs = [\<lparr>run_file = clip_a, run_remote = service ''files/a'' [ACTIVE],
                  run_at = AwaitLoopGet ready_file\<rparr>,
                 \<lparr>run_file = clip_b, run_remote = service ''files/b'' [], run_at = Finished\<rparr>]\<rparr>"
  have first: "0 < length (runs s)"
    by (simp add: s_def)
  have waiting: "runs s ! 0 = \<lparr>run_file = clip_a, run_remote = service ''files/a'' [ACTIVE],
                  run_at = AwaitLoopGet ready_file\<rparr>"
    by (simp add: s_def)
  have script: "status_script (service ''files/a'' [ACTIVE]) = replicate 0 PROCESSING @ ACTIVE # []"
    by (simp add: service_def)
  from last_completion_wins [OF first waiting script]
  obtain s' where run: "exec s (replicate (2 * Suc 0) (Resume 0)) = Some s'"
    and written: "app s' = (app s)\<lparr>file_cell := Some (ready_file\<lparr>state := ACTIVE\<rparr>),
        isLoadingVideo := False\<rparr>"
    and len: "length (runs s') = length (runs s)"
    and fin: "run_at (runs s' ! 0) = Finished"
    and queries: "get_calls (run_remote (runs s' ! 0)) = get_calls (service ''files/a'' [ACTIVE]) + 0"
    and others: "\<forall>k < length (runs s). k \<noteq> 0 \<longrightarrow> runs s' ! k = runs s ! k"
    by blast
  from len have two: "runs s' = [runs s' ! 0, runs s' ! Suc 0]"
    by (cases "runs s'"; cases "tl (runs s')") (auto simp: s_def)
  from others have second: "runs s' ! Suc 0 = \<lparr>run_file = clip_b, run_remote = service ''files/b'' [],
      run_at = Finished\<rparr>"
    by (simp add: s_def)
  have "file_cell (app s') = Some ready_file"
    by (simp add: written ready_file_def)
  moreover have "map run_at (runs s') = [Finished, Finished]"
    by (subst two) (simp add: fin second)
  moreover have "map (get_calls \<circ> run_remote) (runs s') = [0, 0]"
    by (subst two) (simp add: queries second service_def)
  ultimately show ?thesis
    using run by (simp only: s_def option.map prod.case)
qed

end
